theory Spec2Isabelle
  imports Main
begin

section \<open>Python values, errors and the request dispatcher\<close>

text \<open>
  Exceptions are values. \<open>ValueError\<close>, \<open>TypeError\<close>, \<open>AttributeError\<close>, \<open>OverflowError\<close>
  and \<open>KeyError\<close> are the Python built-ins that \<^verbatim>\<open>member.py\<close> raises itself or through the
  standard library. \<open>InvalidArgument\<close> is the error class of the specification's taxonomy
  for local validation failures; no statement of \<^verbatim>\<open>member.py\<close> or \<^verbatim>\<open>mentions.py\<close> raises
  it. \<open>NotFound\<close>, \<open>Forbidden\<close> and \<open>HTTPException\<close> are failures of the dispatcher.
\<close>

datatype error =
    ValueError | TypeError | AttributeError | OverflowError | KeyError
  | InvalidArgument
  | NotFound | Forbidden | HTTPException

text \<open>
  The values found in request payloads and in response bodies: \<open>None\<close>, booleans,
  integers, strings, lists and dictionaries with string keys.
\<close>

datatype pyval =
    PNone | PBool bool | PInt int | PStr string
  | PList "pyval list" | PDict "(string \<times> pyval) list"

text \<open>A dictionary built by the code (a request payload): keys to values.\<close>

type_synonym payload = "string \<rightharpoonup> pyval"

text \<open>\<^verbatim>\<open>str(n)\<close> of a Python integer: decimal digits, a minus sign when negative.\<close>

fun nat_digits :: "nat \<Rightarrow> string" where
  "nat_digits n =
     (if n < 10 then [''0123456789'' ! n]
      else nat_digits (n div 10) @ [''0123456789'' ! (n mod 10)])"

declare nat_digits.simps [simp del]

definition str_int :: "int \<Rightarrow> string" where
  "str_int n = (if n < 0 then CHR ''-'' # nat_digits (nat (- n)) else nat_digits (nat n))"

text \<open>
  One call \<^verbatim>\<open>self._state.query(method, path, reason=..., json=..., res_method=...)\<close>.
  A keyword argument the caller leaves out is \<open>None\<close>.
\<close>

record request =
  http_method :: string
  path :: string
  reason :: "string option"
  json :: "payload option"
  res_method :: "string option"

text \<open>
  The dispatcher (\<^verbatim>\<open>DiscordAPI\<close>) is an external collaborator: a function of the request
  and of its own state that either raises or returns the response body
  (\<^verbatim>\<open>r.response\<close>). The wrappers share one dispatcher; the second component of the
  connection state records every call issued, in order.
\<close>

type_synonym 's DiscordAPI = "request \<Rightarrow> 's \<Rightarrow> (error + pyval) \<times> 's"

type_synonym 's conn = "'s \<times> request list"

definition query :: "'s DiscordAPI \<Rightarrow> request \<Rightarrow> 's conn \<Rightarrow> (error + pyval) \<times> 's conn" where
  "query api req st =
     (case api req (fst st) of (r, s') \<Rightarrow> (r, (s', snd st @ [req])))"

definition calls :: "'s conn \<Rightarrow> request list" where
  "calls st = snd st"

section \<open>Durations\<close>

text \<open>
  \<^verbatim>\<open>datetime.timedelta\<close> as its total number of microseconds. The constructor raises
  \<open>OverflowError\<close> outside \<open>-999999999 days .. 999999999 days 23:59:59.999999\<close>.
\<close>

datatype timedelta = Timedelta int

definition timedelta_new :: "int \<Rightarrow> int \<Rightarrow> error + timedelta" where
  "timedelta_new days seconds =
     (let us = (days * 86400 + seconds) * 1000000
      in if - 999999999 * 86400000000 \<le> us \<and> us < 1000000000 * 86400000000
         then Inr (Timedelta us) else Inl OverflowError)"

text \<open>
  \<^verbatim>\<open>int(td.total_seconds())\<close>: the float quotient by \<open>10^6\<close>, truncated towards zero.
  The only caller passes whole days between 1 and 7, where the float is exact.
\<close>

fun int_total_seconds :: "timedelta \<Rightarrow> int" where
  "int_total_seconds (Timedelta us) =
     (if 0 \<le> us then us div 1000000 else - ((- us) div 1000000))"

section \<open>The identifier base and PartialMember\<close>

text \<open>
  Modelled from the spec: \<^verbatim>\<open>PartialBase\<close> (\<^verbatim>\<open>object.py\<close> is not part of the excerpt) is
  the identifier base, a value object holding the numeric identifier;
  \<^verbatim>\<open>super().__init__(id=int(user_id))\<close> stores it in \<open>id\<close>.
\<close>

record PartialBase =
  id' :: int

text \<open>
  \<^verbatim>\<open>PartialMember(state, guild_id, user_id)\<close>: the identifier and the guild identifier. The
  dispatcher reference \<^verbatim>\<open>_state\<close> is the \<open>api\<close> argument of every operation.
\<close>

record PartialMember = PartialBase +
  guild_id :: int

definition PartialMember_init :: "int \<Rightarrow> int \<Rightarrow> PartialMember" where
  "PartialMember_init guild_id_arg user_id = \<lparr>id' = user_id, guild_id = guild_id_arg\<rparr>"

subsection \<open>ban\<close>

text \<open>\<^verbatim>\<open>if x:\<close> on an \<^verbatim>\<open>Optional[int]\<close>: \<open>None\<close> and \<open>0\<close> are false.\<close>

fun int_truthy :: "int option \<Rightarrow> bool" where
  "int_truthy None = False"
| "int_truthy (Some n) = (n \<noteq> 0)"

text \<open>\<^verbatim>\<open>n in range(lo, hi)\<close> for an integer \<open>n\<close>.\<close>

definition in_range :: "int \<Rightarrow> int \<Rightarrow> int \<Rightarrow> bool" where
  "in_range n lo hi = (lo \<le> n \<and> n < hi)"

text \<open>
  Lines 154--166 of \<^verbatim>\<open>member.py\<close>: the payload of a ban, or the \<open>ValueError\<close> raised
  before the dispatcher is called.
\<close>

definition ban_days :: "int option \<Rightarrow> payload \<Rightarrow> error + payload" where
  "ban_days delete_message_days payload =
     (case delete_message_days of
        None \<Rightarrow> Inr payload
      | Some d \<Rightarrow>
          if d \<noteq> 0 then
            (if \<not> in_range d 0 8 then Inl ValueError
             else case timedelta_new d 0 of
                    Inl e \<Rightarrow> Inl e
                  | Inr td \<Rightarrow>
                      Inr (payload(''delete_message_seconds'' \<mapsto> PInt (int_total_seconds td))))
          else Inr payload)"

definition ban_seconds :: "int option \<Rightarrow> payload \<Rightarrow> error + payload" where
  "ban_seconds delete_message_seconds payload =
     (case delete_message_seconds of
        None \<Rightarrow> Inr payload
      | Some s \<Rightarrow>
          if s \<noteq> 0 then
            (if \<not> in_range s 0 604801 then Inl ValueError
             else Inr (payload(''delete_message_seconds'' \<mapsto> PInt s)))
          else Inr payload)"

definition ban_payload :: "int option \<Rightarrow> int option \<Rightarrow> error + payload" where
  "ban_payload delete_message_days delete_message_seconds =
     (if int_truthy delete_message_days \<and> int_truthy delete_message_seconds
      then Inl ValueError
      else case ban_days delete_message_days Map.empty of
             Inl e \<Rightarrow> Inl e
           | Inr payload \<Rightarrow> ban_seconds delete_message_seconds payload)"

definition ban_request ::
  "'a PartialMember_scheme \<Rightarrow> string option \<Rightarrow> payload \<Rightarrow> request" where
  "ban_request self reason_arg payload =
     \<lparr>http_method = ''PUT'',
      path = ''/guilds/'' @ str_int (guild_id self) @ ''/bans/'' @ str_int (id' self),
      reason = reason_arg, json = Some payload, res_method = None\<rparr>"

definition ban ::
  "'s DiscordAPI \<Rightarrow> 'a PartialMember_scheme \<Rightarrow> string option \<Rightarrow> int option \<Rightarrow> int option
     \<Rightarrow> 's conn \<Rightarrow> (error + unit) \<times> 's conn" where
  "ban api self reason_arg delete_message_days delete_message_seconds st =
     (case ban_payload delete_message_days delete_message_seconds of
        Inl e \<Rightarrow> (Inl e, st)
      | Inr payload \<Rightarrow>
          (case query api (ban_request self reason_arg payload) st of
             (Inl e, st') \<Rightarrow> (Inl e, st')
           | (Inr r, st') \<Rightarrow> (Inr (), st')))"

section \<open>Points in time\<close>

text \<open>
  A naive \<^verbatim>\<open>datetime.datetime\<close> (what \<^verbatim>\<open>datetime.utcnow()\<close> returns) as the number of
  microseconds since 0001-01-01T00:00:00. The type ends with year 9999: an addition that
  leaves \<open>0001..9999\<close> raises \<open>OverflowError\<close>.
\<close>

datatype datetime = Datetime int

fun datetime_add :: "datetime \<Rightarrow> timedelta \<Rightarrow> error + datetime" where
  "datetime_add (Datetime t) (Timedelta d) =
     (let r = t + d
      in if 0 \<le> r \<and> r < 3652059 * 86400000000 then Inr (Datetime r) else Inl OverflowError)"

text \<open>The standard library's conversion of a day number (from 0) to year, month, day.\<close>

definition days_before_month :: "int list" where
  "days_before_month = [- 1, 0, 31, 59, 90, 120, 151, 181, 212, 243, 273, 304, 334]"

definition days_in_month :: "int list" where
  "days_in_month = [- 1, 31, 28, 31, 30, 31, 30, 31, 31, 30, 31, 30, 31]"

definition ord2ymd :: "int \<Rightarrow> int \<times> int \<times> int" where
  "ord2ymd n0 =
     (let n400 = n0 div 146097; n = n0 mod 146097;
          n100 = n div 36524; n = n mod 36524;
          n4 = n div 1461; n = n mod 1461;
          n1 = n div 365; n = n mod 365;
          year = n400 * 400 + 1 + n100 * 100 + n4 * 4 + n1
      in if n1 = 4 \<or> n100 = 4 then (year - 1, 12, 31)
         else
           (let leapyear = (n1 = 3 \<and> (n4 \<noteq> 24 \<or> n100 = 3));
                month = (n + 50) div 32;
                preceding = days_before_month ! nat month
                            + (if 2 < month \<and> leapyear then 1 else 0)
            in if n < preceding
               then (let month = month - 1;
                         preceding = preceding
                           - (days_in_month ! nat month
                              + (if month = 2 \<and> leapyear then 1 else 0))
                     in (year, month, n - preceding + 1))
               else (year, month, n - preceding + 1)))"

text \<open>\<^verbatim>\<open>"%0wd" % n\<close> for a natural number.\<close>

definition zpad :: "nat \<Rightarrow> int \<Rightarrow> string" where
  "zpad w n = (let ds = nat_digits (nat n) in replicate (w - length ds) CHR ''0'' @ ds)"

text \<open>
  \<^verbatim>\<open>datetime.isoformat()\<close> of a naive datetime: \<^verbatim>\<open>YYYY-MM-DDTHH:MM:SS\<close>, followed by
  \<^verbatim>\<open>.ffffff\<close> when the microsecond is not zero.
\<close>

fun isoformat :: "datetime \<Rightarrow> string" where
  "isoformat (Datetime t) =
     (let day = t div 86400000000; r = t mod 86400000000;
          us = r mod 1000000; s = r div 1000000
      in case ord2ymd day of (y, m, d) \<Rightarrow>
           zpad 4 y @ ''-'' @ zpad 2 m @ ''-'' @ zpad 2 d @ ''T''
           @ zpad 2 (s div 3600) @ '':'' @ zpad 2 (s div 60 mod 60) @ '':'' @ zpad 2 (s mod 60)
           @ (if us \<noteq> 0 then ''.'' @ zpad 6 us else []))"

section \<open>Built-in operations on payload values\<close>

definition bind_e :: "error + 'a \<Rightarrow> ('a \<Rightarrow> error + 'b) \<Rightarrow> error + 'b" where
  "bind_e x f = (case x of Inl e \<Rightarrow> Inl e | Inr v \<Rightarrow> f v)"

text \<open>Truth value of an object, as \<^verbatim>\<open>if x:\<close> and \<^verbatim>\<open>x or y\<close> test it.\<close>

fun truthy :: "pyval \<Rightarrow> bool" where
  "truthy PNone = False"
| "truthy (PBool b) = b"
| "truthy (PInt n) = (n \<noteq> 0)"
| "truthy (PStr s) = (s \<noteq> [])"
| "truthy (PList xs) = (xs \<noteq> [])"
| "truthy (PDict kvs) = (kvs \<noteq> [])"

text \<open>\<^verbatim>\<open>d[k]\<close>: \<open>KeyError\<close> on a missing key, \<open>TypeError\<close> when \<open>d\<close> is not a dictionary.\<close>

fun getitem :: "pyval \<Rightarrow> string \<Rightarrow> error + pyval" where
  "getitem (PDict kvs) k = (case map_of kvs k of None \<Rightarrow> Inl KeyError | Some v \<Rightarrow> Inr v)"
| "getitem _ k = Inl TypeError"

text \<open>\<^verbatim>\<open>d.get(k, default)\<close>: only a dictionary has the method.\<close>

fun dict_get :: "pyval \<Rightarrow> string \<Rightarrow> pyval \<Rightarrow> error + pyval" where
  "dict_get (PDict kvs) k dflt = Inr (case map_of kvs k of None \<Rightarrow> dflt | Some v \<Rightarrow> v)"
| "dict_get _ k dflt = Inl AttributeError"

text \<open>\<^verbatim>\<open>for r in x\<close>: the items of a list, the characters of a string, the keys of a dictionary.\<close>

fun py_iter :: "pyval \<Rightarrow> error + pyval list" where
  "py_iter (PList xs) = Inr xs"
| "py_iter (PStr s) = Inr (map (\<lambda>c. PStr [c]) s)"
| "py_iter (PDict kvs) = Inr (map (\<lambda>kv. PStr (fst kv)) kvs)"
| "py_iter _ = Inl TypeError"

text \<open>
  \<^verbatim>\<open>int(x)\<close>. A string is stripped of surrounding white space and read as an optional
  sign followed by decimal digits, single underscores allowed between digits (ASCII
  input; the interpreter's limit on the number of digits is not modelled).
\<close>

definition is_space :: "char \<Rightarrow> bool" where
  "is_space c = (c \<in> set [CHR '' '', CHR 0x09, CHR 0x0A, CHR 0x0B, CHR 0x0C, CHR 0x0D,
                           CHR 0x1C, CHR 0x1D, CHR 0x1E, CHR 0x1F])"

definition strip :: "string \<Rightarrow> string" where
  "strip s = rev (dropWhile is_space (rev (dropWhile is_space s)))"

definition is_digit :: "char \<Rightarrow> bool" where
  "is_digit c = (c \<in> set ''0123456789'')"

fun digits_ok :: "string \<Rightarrow> bool" where
  "digits_ok [] = False"
| "digits_ok [c] = is_digit c"
| "digits_ok (c # d # cs) =
     (is_digit c \<and> (if d = CHR ''_'' then digits_ok cs else digits_ok (d # cs)))"

definition digits_val :: "string \<Rightarrow> nat" where
  "digits_val s =
     foldl (\<lambda>a c. a * 10 + (of_char c - 48)) 0 (filter (\<lambda>c. c \<noteq> CHR ''_'') s)"

definition parse_int :: "string \<Rightarrow> int option" where
  "parse_int s =
     (case strip s of
        [] \<Rightarrow> None
      | c # cs \<Rightarrow>
          if c = CHR ''-'' then (if digits_ok cs then Some (- int (digits_val cs)) else None)
          else if c = CHR ''+'' then (if digits_ok cs then Some (int (digits_val cs)) else None)
          else (if digits_ok (c # cs) then Some (int (digits_val (c # cs))) else None))"

fun py_int :: "pyval \<Rightarrow> error + int" where
  "py_int (PInt n) = Inr n"
| "py_int (PBool b) = Inr (if b then 1 else 0)"
| "py_int (PStr s) = (case parse_int s of None \<Rightarrow> Inl ValueError | Some n \<Rightarrow> Inr n)"
| "py_int _ = Inl TypeError"

text \<open>A list comprehension whose element expression can raise: the first error ends it.\<close>

fun map_e :: "('a \<Rightarrow> error + 'b) \<Rightarrow> 'a list \<Rightarrow> error + 'b list" where
  "map_e f [] = Inr []"
| "map_e f (x # xs) = bind_e (f x) (\<lambda>y. bind_e (map_e f xs) (\<lambda>ys. Inr (y # ys)))"

section \<open>AllowedMentions\<close>

text \<open>
  \<^verbatim>\<open>utils.Snowflake\<close> is an object with an \<open>id\<close>: the identifier base. A \<open>users\<close> or
  \<open>roles\<close> field holds a boolean, a list of them, or \<open>None\<close>.
\<close>

type_synonym Snowflake = PartialBase

datatype mention_field = MBool bool | MList "Snowflake list" | MNone

record AllowedMentions =
  everyone :: bool
  users :: mention_field
  roles :: mention_field
  reply_user :: bool

definition AllowedMentions_init ::
  "bool \<Rightarrow> mention_field \<Rightarrow> mention_field \<Rightarrow> bool \<Rightarrow> AllowedMentions" where
  "AllowedMentions_init everyone_arg users_arg roles_arg replied_user =
     \<lparr>everyone = everyone_arg, users = users_arg, roles = roles_arg,
      reply_user = replied_user\<rparr>"

definition AllowedMentions_all :: AllowedMentions where
  "AllowedMentions_all = AllowedMentions_init True (MBool True) (MBool True) True"

definition AllowedMentions_none :: AllowedMentions where
  "AllowedMentions_none = AllowedMentions_init False (MBool False) (MBool False) False"

text \<open>
  One of the two \<^verbatim>\<open>isinstance(.., list)\<close> / \<^verbatim>\<open>elif .. is True\<close> blocks of \<^verbatim>\<open>to_dict\<close>: the
  pair of the \<open>parse\<close> list and the dictionary after the block.
\<close>

fun mention_block ::
  "string \<Rightarrow> mention_field \<Rightarrow> string list \<times> payload \<Rightarrow> string list \<times> payload" where
  "mention_block key (MList xs) (parse, data) =
     (parse, data(key \<mapsto> PList (map (\<lambda>x. PInt (id' x)) xs)))"
| "mention_block key (MBool True) (parse, data) = (parse @ [key], data)"
| "mention_block key _ (parse, data) = (parse, data)"

definition to_dict :: "AllowedMentions \<Rightarrow> payload" where
  "to_dict self =
     (let pd = ([], Map.empty);
          pd = (if everyone self then (fst pd @ [''everyone''], snd pd) else pd);
          pd = mention_block ''users'' (users self) pd;
          pd = mention_block ''roles'' (roles self) pd;
          pd = (if reply_user self then (fst pd, (snd pd)(''replied_user'' \<mapsto> PBool True))
                else pd)
      in (snd pd)(''parse'' \<mapsto> PList (map PStr (fst pd))))"

section \<open>Collaborators outside the excerpt\<close>

text \<open>
  Modelled from the spec: \<^verbatim>\<open>PartialGuild\<close> and \<^verbatim>\<open>PartialRole\<close> (\<^verbatim>\<open>guild.py\<close> and \<^verbatim>\<open>role.py\<close>
  are not part of the excerpt) are partial-resource wrappers, which hold only identifiers
  and the dispatcher reference: \<^verbatim>\<open>PartialGuild(state, guild_id)\<close> has the identifier
  \<open>guild_id\<close>, \<^verbatim>\<open>PartialRole(state, guild_id, role_id)\<close> the identifier \<open>role_id\<close>.
\<close>

type_synonym PartialGuild = PartialBase

definition PartialGuild_init :: "int \<Rightarrow> PartialGuild" where
  "PartialGuild_init guild_id_arg = \<lparr>id' = guild_id_arg\<rparr>"

record PartialRole = PartialBase +
  role_guild_id :: int

definition PartialRole_init :: "int \<Rightarrow> int \<Rightarrow> PartialRole" where
  "PartialRole_init guild_id_arg role_id = \<lparr>id' = role_id, role_guild_id = guild_id_arg\<rparr>"

text \<open>
  Modelled from the spec: \<^verbatim>\<open>User\<close> (\<^verbatim>\<open>user.py\<close> is not part of the excerpt) is the
  hydrated user wrapper embedded in a \<^verbatim>\<open>Member\<close>; of its attributes, \<^verbatim>\<open>member.py\<close>
  computes with the username \<open>name\<close> (a string) and the global display name
  \<open>global_name\<close> (a string or \<open>None\<close>).
\<close>

record User = PartialBase +
  name :: string
  global_name :: "string option"

text \<open>
  An \<^verbatim>\<open>Asset\<close> is kept as the call that built it:
  \<^verbatim>\<open>Asset._from_guild_avatar(guild_id, member_id, avatar)\<close>.
\<close>

datatype Asset = Asset_from_guild_avatar int int pyval

text \<open>
  The functions of the repository that \<^verbatim>\<open>member.py\<close> calls and the excerpt does not
  contain are parameters of the model: the constructor \<^verbatim>\<open>User(state, data)\<close>,
  \<^verbatim>\<open>utils.get_int(data, key)\<close>, \<^verbatim>\<open>utils.parse_time(value)\<close> and \<^verbatim>\<open>User.__str__\<close>.
\<close>

record collaborators =
  User_init :: "pyval \<Rightarrow> error + User"
  get_int :: "pyval \<Rightarrow> string \<Rightarrow> error + int option"
  parse_time :: "pyval \<Rightarrow> error + datetime"
  User_str :: "User \<Rightarrow> string"

section \<open>ThreadMember\<close>

record ThreadMember = PartialBase +
  flags :: pyval
  join_timestamp :: datetime

definition ThreadMember_init :: "collaborators \<Rightarrow> pyval \<Rightarrow> error + ThreadMember" where
  "ThreadMember_init ext data =
     bind_e (getitem data ''user_id'') (\<lambda>uid_raw.
     bind_e (py_int uid_raw) (\<lambda>uid.
     bind_e (getitem data ''flags'') (\<lambda>fl.
     bind_e (getitem data ''join_timestamp'') (\<lambda>ts_raw.
     bind_e (parse_time ext ts_raw) (\<lambda>ts.
       Inr \<lparr>id' = uid, flags = fl, join_timestamp = ts\<rparr>)))))"


section \<open>Member\<close>

record Member = PartialMember +
  user :: User
  avatar :: "Asset option"
  flags :: pyval
  pending :: pyval
  raw_permissions :: "int option"
  nick :: pyval
  joined_at :: datetime
  roles :: "PartialRole list"

text \<open>The property \<^verbatim>\<open>PartialMember.guild\<close>.\<close>

definition guild :: "'a PartialMember_scheme \<Rightarrow> PartialGuild" where
  "guild self = PartialGuild_init (guild_id self)"

text \<open>
  \<^verbatim>\<open>Member.__init__(state, guild, data)\<close>, lines 368--389 with \<^verbatim>\<open>_from_data\<close>: every
  lookup and conversion that can raise is a step of the chain, in the source's order.
\<close>

definition Member_init :: "collaborators \<Rightarrow> PartialGuild \<Rightarrow> pyval \<Rightarrow> error + Member" where
  "Member_init ext guild_arg data =
     bind_e (getitem data ''user'') (\<lambda>u.
     bind_e (getitem u ''id'') (\<lambda>uid_raw.
     bind_e (py_int uid_raw) (\<lambda>uid.
     bind_e (User_init ext u) (\<lambda>usr.
     bind_e (getitem data ''flags'') (\<lambda>fl.
     bind_e (dict_get data ''pending'' (PBool False)) (\<lambda>pend.
     bind_e (get_int ext data ''permissions'') (\<lambda>perms.
     bind_e (dict_get data ''nick'' PNone) (\<lambda>nk.
     bind_e (getitem data ''joined_at'') (\<lambda>ja_raw.
     bind_e (parse_time ext ja_raw) (\<lambda>ja.
     bind_e (getitem data ''roles'') (\<lambda>rs_raw.
     bind_e (py_iter rs_raw) (\<lambda>rs_items.
     bind_e (map_e (\<lambda>r. bind_e (py_int r) (\<lambda>n. Inr (PartialRole_init (id' guild_arg) n)))
               rs_items) (\<lambda>rs.
     bind_e (dict_get data ''avatar'' PNone) (\<lambda>has_avatar.
       Inr \<lparr>id' = uid, guild_id = id' guild_arg, user = usr,
            avatar = (if truthy has_avatar
                      then Some (Asset_from_guild_avatar (id' guild_arg) uid has_avatar)
                      else None),
            flags = fl, pending = pend, raw_permissions = perms, nick = nk,
            joined_at = ja, roles = rs\<rparr>))))))))))))))"



definition mention :: "'a PartialMember_scheme \<Rightarrow> string" where
  "mention self = ''<@!'' @ str_int (id' self) @ ''>''"

text \<open>
  \<^verbatim>\<open>self.nick or self.global_name or self.name\<close>: the first operand that is true, the
  last one otherwise.
\<close>

definition display_name :: "Member \<Rightarrow> pyval" where
  "display_name self =
     (if truthy (nick self) then nick self
      else case global_name (user self) of
             Some g \<Rightarrow> if g \<noteq> [] then PStr g else PStr (name (user self))
           | None \<Rightarrow> PStr (name (user self)))"

section \<open>Operations that hydrate a Member\<close>

definition fetch ::
  "'s DiscordAPI \<Rightarrow> collaborators \<Rightarrow> 'a PartialMember_scheme \<Rightarrow> 's conn
     \<Rightarrow> (error + Member) \<times> 's conn" where
  "fetch api ext self st =
     (case query api
             \<lparr>http_method = ''GET'',
              path = ''/guilds/'' @ str_int (guild_id self) @ ''/members/'' @ str_int (id' self),
              reason = None, json = None, res_method = None\<rparr> st of
        (Inl e, st') \<Rightarrow> (Inl e, st')
      | (Inr response, st') \<Rightarrow> (Member_init ext (guild self) response, st'))"

subsection \<open>edit\<close>

text \<open>
  A keyword argument whose default is the sentinel \<^verbatim>\<open>MISSING\<close>: left out, or supplied
  with a value (which may be \<open>None\<close>).
\<close>

datatype 'a arg = MISSING | Given 'a

text \<open>A role argument: a \<^verbatim>\<open>PartialRole\<close> or \<^verbatim>\<open>Role\<close> object, or a raw identifier.\<close>

datatype role_ref = RoleObj PartialRole | RoleId int

fun role_id_of :: "role_ref \<Rightarrow> int" where
  "role_id_of (RoleObj r) = id' r"
| "role_id_of (RoleId n) = n"

text \<open>
  What \<^verbatim>\<open>communication_disabled_until\<close> can hold when supplied: a \<^verbatim>\<open>timedelta\<close>, a
  \<^verbatim>\<open>datetime\<close>, an \<^verbatim>\<open>int\<close> (a \<^verbatim>\<open>bool\<close> is an \<^verbatim>\<open>int\<close>: \<open>True\<close> is \<open>TInt 1\<close>), \<open>None\<close>, or
  an object of any other class, kept by the name of its class.
\<close>

datatype timeout = TTimedelta timedelta | TDatetime datetime | TInt int | TNone | TOther string

record edit_args =
  arg_nick :: "string option arg"
  arg_roles :: "role_ref list option arg"
  arg_mute :: "bool option arg"
  arg_deaf :: "bool option arg"
  arg_communication_disabled_until :: "timeout arg"
  arg_channel_id :: "int option arg"

definition no_args :: edit_args where
  "no_args = \<lparr>arg_nick = MISSING, arg_roles = MISSING, arg_mute = MISSING, arg_deaf = MISSING,
              arg_communication_disabled_until = MISSING, arg_channel_id = MISSING\<rparr>"

fun of_str :: "string option \<Rightarrow> pyval" where
  "of_str None = PNone"
| "of_str (Some s) = PStr s"

fun of_bool :: "bool option \<Rightarrow> pyval" where
  "of_bool None = PNone"
| "of_bool (Some b) = PBool b"

fun of_int :: "int option \<Rightarrow> pyval" where
  "of_int None = PNone"
| "of_int (Some n) = PInt n"

text \<open>\<^verbatim>\<open>if x is not MISSING: payload[key] = x\<close>.\<close>

fun set_if_given :: "string \<Rightarrow> ('a \<Rightarrow> pyval) \<Rightarrow> 'a arg \<Rightarrow> payload \<Rightarrow> payload" where
  "set_if_given key conv MISSING payload = payload"
| "set_if_given key conv (Given v) payload = payload(key \<mapsto> conv v)"

text \<open>\<^verbatim>\<open>if isinstance(roles, list) and roles is not MISSING: payload["roles"] = [...]\<close>.\<close>

fun set_roles :: "role_ref list option arg \<Rightarrow> payload \<Rightarrow> payload" where
  "set_roles (Given (Some rs)) payload =
     payload(''roles'' \<mapsto> PList (map (\<lambda>role. PInt (role_id_of role)) rs))"
| "set_roles _ payload = payload"

text \<open>
  The \<^verbatim>\<open>match\<close> statement of lines 264--277: the value of \<^verbatim>\<open>_timeout_value\<close>, \<open>None\<close>
  included, or the error raised.
\<close>

fun timeout_value :: "datetime \<Rightarrow> timeout \<Rightarrow> error + datetime option" where
  "timeout_value now (TTimedelta x) = bind_e (datetime_add now x) (\<lambda>t. Inr (Some t))"
| "timeout_value now (TDatetime x) = Inr (Some x)"
| "timeout_value now (TInt x) =
     bind_e (timedelta_new 0 x) (\<lambda>d. bind_e (datetime_add now d) (\<lambda>t. Inr (Some t)))"
| "timeout_value now TNone = Inr None"
| "timeout_value now (TOther c) = Inl TypeError"

text \<open>
  Line 279, \<^verbatim>\<open>payload[..] = _timeout_value.isoformat()\<close>: \<open>None\<close> has no attribute
  \<^verbatim>\<open>isoformat\<close>.
\<close>

fun set_timeout :: "datetime \<Rightarrow> timeout arg \<Rightarrow> payload \<Rightarrow> error + payload" where
  "set_timeout now MISSING payload = Inr payload"
| "set_timeout now (Given x) payload =
     bind_e (timeout_value now x) (\<lambda>tv.
       case tv of
         None \<Rightarrow> Inl AttributeError
       | Some t \<Rightarrow> Inr (payload(''communication_disabled_until'' \<mapsto> PStr (isoformat t))))"

text \<open>Lines 245--279: the payload of the \<^verbatim>\<open>PATCH\<close>; \<open>now\<close> is what \<^verbatim>\<open>datetime.utcnow()\<close> returns.\<close>

definition edit_payload :: "datetime \<Rightarrow> edit_args \<Rightarrow> error + payload" where
  "edit_payload now args =
     (let payload = Map.empty;
          payload = set_if_given ''nick'' of_str (arg_nick args) payload;
          payload = set_roles (arg_roles args) payload;
          payload = set_if_given ''mute'' of_bool (arg_mute args) payload;
          payload = set_if_given ''deaf'' of_bool (arg_deaf args) payload;
          payload = set_if_given ''channel_id'' of_int (arg_channel_id args) payload
      in set_timeout now (arg_communication_disabled_until args) payload)"

definition edit_request :: "'a PartialMember_scheme \<Rightarrow> payload \<Rightarrow> request" where
  "edit_request self payload =
     \<lparr>http_method = ''PATCH'',
      path = ''/guilds/'' @ str_int (guild_id self) @ ''/members/'' @ str_int (id' self),
      reason = None, json = Some payload, res_method = None\<rparr>"

definition edit ::
  "'s DiscordAPI \<Rightarrow> collaborators \<Rightarrow> 'a PartialMember_scheme \<Rightarrow> edit_args \<Rightarrow> datetime
     \<Rightarrow> 's conn \<Rightarrow> (error + Member) \<times> 's conn" where
  "edit api ext self args now st =
     (case edit_payload now args of
        Inl e \<Rightarrow> (Inl e, st)
      | Inr payload \<Rightarrow>
          (case query api (edit_request self payload) st of
             (Inl e, st') \<Rightarrow> (Inl e, st')
           | (Inr response, st') \<Rightarrow> (Member_init ext (guild self) response, st')))"

subsection \<open>add\_roles and remove\_roles\<close>

definition role_request ::
  "string \<Rightarrow> 'a PartialMember_scheme \<Rightarrow> string option \<Rightarrow> role_ref \<Rightarrow> request" where
  "role_request verb self reason_arg role =
     \<lparr>http_method = verb,
      path = ''/guilds/'' @ str_int (guild_id self) @ ''/members/'' @ str_int (id' self)
             @ ''/roles/'' @ str_int (role_id_of role),
      reason = reason_arg, json = None, res_method = None\<rparr>"

text \<open>The \<^verbatim>\<open>for role in roles\<close> loop: an error raised by a call ends it.\<close>

fun roles_loop ::
  "string \<Rightarrow> 's DiscordAPI \<Rightarrow> 'a PartialMember_scheme \<Rightarrow> string option \<Rightarrow> role_ref list
     \<Rightarrow> 's conn \<Rightarrow> (error + unit) \<times> 's conn" where
  "roles_loop verb api self reason_arg [] st = (Inr (), st)"
| "roles_loop verb api self reason_arg (role # rest) st =
     (case query api (role_request verb self reason_arg role) st of
        (Inl e, st') \<Rightarrow> (Inl e, st')
      | (Inr r, st') \<Rightarrow> roles_loop verb api self reason_arg rest st')"


definition remove_roles ::
  "'s DiscordAPI \<Rightarrow> 'a PartialMember_scheme \<Rightarrow> role_ref list \<Rightarrow> string option
     \<Rightarrow> 's conn \<Rightarrow> (error + unit) \<times> 's conn" where
  "remove_roles api self role_args reason_arg st =
     roles_loop ''DELETE'' api self reason_arg role_args st"

section \<open>Objects in a store\<close>

text \<open>
  Python objects are references. The store holds the \<^verbatim>\<open>Member\<close> objects created so far;
  a reference is a position in it. \<^verbatim>\<open>Member(...)\<close> creates an object: it is appended,
  and its position is the reference returned. \<open>edit_in_store\<close> is \<^verbatim>\<open>edit\<close> called on
  the object \<open>self\<close>: the method assigns to no attribute of an existing object, so the
  only change to the store is the object it creates.
\<close>

type_synonym store = "Member list"

definition edit_in_store ::
  "'s DiscordAPI \<Rightarrow> collaborators \<Rightarrow> Member \<Rightarrow> edit_args \<Rightarrow> datetime
     \<Rightarrow> store \<times> 's conn \<Rightarrow> (error + nat) \<times> (store \<times> 's conn)" where
  "edit_in_store api ext self args now hs =
     (case edit api ext self args now (snd hs) of
        (Inl e, st') \<Rightarrow> (Inl e, (fst hs, st'))
      | (Inr m, st') \<Rightarrow> (Inr (length (fst hs)), (fst hs @ [m], st')))"

section \<open>Facts about the dispatcher and evaluation\<close>

lemma calls_query: "calls (snd (query api req st)) = calls st @ [req]"
  by (simp add: query_def calls_def split: prod.splits)

lemma str_int_1: "str_int 1 = ''1''"
  by code_simp

lemma str_int_2: "str_int 2 = ''2''"
  by code_simp

section \<open>ban: the deletion window\<close>

lemma ban_days_in_range:
  assumes "1 \<le> d" "d \<le> 7"
  shows "ban_days (Some d) p = Inr (p(''delete_message_seconds'' \<mapsto> PInt (d * 86400)))"
  using assms by (simp add: ban_days_def in_range_def timedelta_new_def Let_def mult.commute)

lemma ban_payload_days:
  assumes "0 \<le> d" "d \<le> 7" "s = None \<or> s = Some 0"
  shows "ban_payload (Some d) s =
           Inr (if d = 0 then Map.empty else [''delete_message_seconds'' \<mapsto> PInt (d * 86400)])"
proof (cases "d = 0")
  case True
  with assms(3) show ?thesis
    by (auto simp: ban_payload_def ban_days_def ban_seconds_def)
next
  case False
  with assms have "1 \<le> d" by simp
  from ban_days_in_range[OF this assms(2)] assms(3) False show ?thesis
    by (auto simp: ban_payload_def ban_seconds_def)
qed

lemma ban_calls:
  assumes "ban_payload d s = Inr p"
  shows "calls (snd (ban api self rsn d s st)) = calls st @ [ban_request self rsn p]"
proof -
  obtain r st' where q: "query api (ban_request self rsn p) st = (r, st')"
    by (cases "query api (ban_request self rsn p) st") blast
  with calls_query[of api "ban_request self rsn p" st]
  have "calls st' = calls st @ [ban_request self rsn p]" by simp
  with q assms show ?thesis by (cases r) (simp_all add: ban_def)
qed

text \<open>
  Claim C1, as amended. For every \<open>delete_message_days\<close> from 0 to 7 with
  \<open>delete_message_seconds\<close> zero (or \<open>None\<close>), \<^verbatim>\<open>ban()\<close> issues exactly one dispatcher call,
  \<^verbatim>\<open>PUT /guilds/{guild}/bans/{id}\<close>. For 1 to 7 days its JSON payload is
  \<^verbatim>\<open>{delete_message_seconds: days * 86400}\<close>; for 0 days the payload is the empty object,
  because the field is only written under \<^verbatim>\<open>if delete_message_days:\<close>.
\<close>

theorem ban_days_to_seconds:
  assumes "0 \<le> d" "d \<le> 7" "s = None \<or> s = Some 0"
  shows "calls (snd (ban api self rsn (Some d) s st)) =
           calls st @
           [\<lparr>http_method = ''PUT'',
             path = ''/guilds/'' @ str_int (guild_id self) @ ''/bans/'' @ str_int (id' self),
             reason = rsn,
             json = Some (if d = 0 then Map.empty
                          else [''delete_message_seconds'' \<mapsto> PInt (d * 86400)]),
             res_method = None\<rparr>]"
  using ban_calls[OF ban_payload_days[OF assms], of api self rsn st]
  unfolding ban_request_def .

theorem ban_days_to_seconds_witness:
  "calls (snd (ban (\<lambda>req s. (Inr PNone, s)) (PartialMember_init 1 2) None (Some 3) (Some 0)
                ((), []))) =
     [\<lparr>http_method = ''PUT'', path = ''/guilds/1/bans/2'', reason = None,
       json = Some [''delete_message_seconds'' \<mapsto> PInt 259200], res_method = None\<rparr>]"
  using ban_days_to_seconds[of 3 "Some 0" "\<lambda>req s. (Inr PNone, s)" "PartialMember_init 1 2"
      None "((), [])"]
  by (simp add: PartialMember_init_def str_int_1 str_int_2 calls_def)

text \<open>
  The claim as stated fails at \<open>delete_message_days = 0\<close>: the payload sent has no
  \<open>delete_message_seconds\<close> field, so no field of it equals \<open>0 * 86400\<close>.
\<close>

theorem ban_zero_days_counterexample:
  "\<not> (\<exists>p. json (last (calls (snd (ban (\<lambda>req s. (Inr PNone, s)) (PartialMember_init 1 2) None
                (Some 0) (Some 0) ((), []))))) = Some p
        \<and> p ''delete_message_seconds'' = Some (PInt (0 * 86400)))"
  by (simp add: ban_def ban_payload_def ban_days_def ban_seconds_def query_def calls_def
      ban_request_def)

section \<open>ban: local validation\<close>

lemma ban_payload_invalid:
  assumes "(int_truthy d \<and> int_truthy s) \<or> (\<exists>n. d = Some n \<and> (n < 0 \<or> 7 < n))
           \<or> (\<exists>n. s = Some n \<and> (n < 0 \<or> 604800 < n))"
  shows "ban_payload d s = Inl ValueError"
  using assms
  by (cases d; cases s)
     (auto simp: ban_payload_def ban_days_def ban_seconds_def in_range_def timedelta_new_def
        Let_def)

lemma ban_payload_valid:
  assumes "\<not> ((int_truthy d \<and> int_truthy s) \<or> (\<exists>n. d = Some n \<and> (n < 0 \<or> 7 < n))
           \<or> (\<exists>n. s = Some n \<and> (n < 0 \<or> 604800 < n)))"
  shows "\<exists>p. ban_payload d s = Inr p"
  using assms
  by (cases d; cases s)
     (auto simp: ban_payload_def ban_days_def ban_seconds_def in_range_def timedelta_new_def
        Let_def)

text \<open>
  Claim C3, as amended. \<^verbatim>\<open>ban()\<close> raises \<open>ValueError\<close> (the built-in, as its docstring
  says; not \<open>InvalidArgument\<close>) before any dispatcher call, leaving the connection as it
  was, whenever both \<open>delete_message_days\<close> and \<open>delete_message_seconds\<close> are non-zero, or
  \<open>delete_message_days\<close> is outside 0--7, or \<open>delete_message_seconds\<close> is outside
  0--604800. Otherwise nothing is raised locally: a payload is built and the dispatcher is
  called once with it.
\<close>

theorem ban_local_validation:
  "(if (int_truthy d \<and> int_truthy s) \<or> (\<exists>n. d = Some n \<and> (n < 0 \<or> 7 < n))
       \<or> (\<exists>n. s = Some n \<and> (n < 0 \<or> 604800 < n))
    then ban api self rsn d s st = (Inl ValueError, st)
    else (\<exists>p. ban_payload d s = Inr p
            \<and> calls (snd (ban api self rsn d s st)) = calls st @ [ban_request self rsn p]))"
proof (cases "(int_truthy d \<and> int_truthy s) \<or> (\<exists>n. d = Some n \<and> (n < 0 \<or> 7 < n))
       \<or> (\<exists>n. s = Some n \<and> (n < 0 \<or> 604800 < n))")
  case True
  from ban_payload_invalid[OF True] have "ban api self rsn d s st = (Inl ValueError, st)"
    by (simp add: ban_def)
  then show ?thesis unfolding if_P[OF True] .
next
  case False
  from ban_payload_valid[OF False] obtain p where p: "ban_payload d s = Inr p" ..
  from ban_calls[OF p, of api self rsn st] p
  have "\<exists>p. ban_payload d s = Inr p
          \<and> calls (snd (ban api self rsn d s st)) = calls st @ [ban_request self rsn p]"
    by blast
  then show ?thesis unfolding if_not_P[OF False] .
qed

theorem ban_local_validation_witness:
  "ban (\<lambda>req s. (Inr PNone, s)) (PartialMember_init 1 2) None (Some 8) (Some 0) ((), [])
     = (Inl ValueError, ((), []))
   \<and> ban (\<lambda>req s. (Inr PNone, s)) (PartialMember_init 1 2) None (Some 0) (Some 604801) ((), [])
     = (Inl ValueError, ((), []))
   \<and> ban (\<lambda>req s. (Inr PNone, s)) (PartialMember_init 1 2) None (Some 1) (Some 1) ((), [])
     = (Inl ValueError, ((), []))
   \<and> (\<exists>p. ban_payload (Some 0) (Some 604800) = Inr p
        \<and> calls (snd (ban (\<lambda>req s. (Inr PNone, s)) (PartialMember_init 1 2) None (Some 0)
                     (Some 604800) ((), [])))
            = calls ((), []) @ [ban_request (PartialMember_init 1 2) None p])"
  using ban_local_validation[of "Some 8" "Some 0" "\<lambda>req s. (Inr PNone, s)"
      "PartialMember_init 1 2" None "((), [])"]
    ban_local_validation[of "Some 0" "Some 604801" "\<lambda>req s. (Inr PNone, s)"
      "PartialMember_init 1 2" None "((), [])"]
    ban_local_validation[of "Some 1" "Some 1" "\<lambda>req s. (Inr PNone, s)"
      "PartialMember_init 1 2" None "((), [])"]
    ban_local_validation[of "Some 0" "Some 604800" "\<lambda>req s. (Inr PNone, s)"
      "PartialMember_init 1 2" None "((), [])"]
  by simp

text \<open>
  The claim as stated fails on the class of the error: \<^verbatim>\<open>ban(delete_message_days=8)\<close>
  raises \<open>ValueError\<close>, which is not \<open>InvalidArgument\<close>.
\<close>

theorem ban_error_class_counterexample:
  "fst (ban (\<lambda>req s. (Inr PNone, s)) (PartialMember_init 1 2) None (Some 8) (Some 0) ((), []))
     = Inl ValueError
   \<and> fst (ban (\<lambda>req s. (Inr PNone, s)) (PartialMember_init 1 2) None (Some 8) (Some 0) ((), []))
     \<noteq> Inl InvalidArgument"
  by (simp add: ban_def ban_payload_def ban_days_def in_range_def)

section \<open>edit: the timeout argument\<close>

lemma set_timeout_Datetime:
  "set_timeout now (Given (TDatetime x)) p
     = Inr (p(''communication_disabled_until'' \<mapsto> PStr (isoformat x)))"
  by (simp add: bind_e_def)

lemma set_timeout_Timedelta:
  "datetime_add now x = Inr t \<Longrightarrow> set_timeout now (Given (TTimedelta x)) p
     = Inr (p(''communication_disabled_until'' \<mapsto> PStr (isoformat t)))"
  by (simp add: bind_e_def)

lemma set_timeout_Int:
  "timedelta_new 0 n = Inr d \<Longrightarrow> datetime_add now d = Inr t
     \<Longrightarrow> set_timeout now (Given (TInt n)) p
         = Inr (p(''communication_disabled_until'' \<mapsto> PStr (isoformat t)))"
  by (simp add: bind_e_def)

lemma set_timeout_Other: "set_timeout now (Given (TOther c)) p = Inl TypeError"
  by (simp add: bind_e_def)

text \<open>
  Claim C2 fails on the code for an explicit \<open>None\<close>: \<^verbatim>\<open>case None\<close> sets
  \<^verbatim>\<open>_timeout_value = None\<close>, and line 279 then calls \<^verbatim>\<open>_timeout_value.isoformat()\<close>.
  \<^verbatim>\<open>edit(communication_disabled_until=None)\<close> raises \<open>AttributeError\<close> before the dispatcher
  is called, whatever the other arguments are; no payload with \<open>null\<close> is sent.
\<close>

theorem edit_timeout_none_raises:
  "edit api ext self (args\<lparr>arg_communication_disabled_until := Given TNone\<rparr>) now st
     = (Inl AttributeError, st)"
  by (simp add: edit_def edit_payload_def bind_e_def Let_def)

section \<open>AllowedMentions.to\_dict\<close>

lemma mention_block_eq:
  "mention_block key f (parse, data) =
     (parse @ (if f = MBool True then [key] else []),
      case f of MList xs \<Rightarrow> data(key \<mapsto> PList (map (\<lambda>x. PInt (id' x)) xs)) | _ \<Rightarrow> data)"
  by (cases "(key, f, (parse, data))" rule: mention_block.cases) auto

lemma to_dict_eq:
  "to_dict a =
     (let d0 = Map.empty;
          d1 = (case users a of
                  MList xs \<Rightarrow> d0(''users'' \<mapsto> PList (map (\<lambda>x. PInt (id' x)) xs)) | _ \<Rightarrow> d0);
          d2 = (case AllowedMentions.roles a of
                  MList xs \<Rightarrow> d1(''roles'' \<mapsto> PList (map (\<lambda>x. PInt (id' x)) xs)) | _ \<Rightarrow> d1);
          d3 = (if reply_user a then d2(''replied_user'' \<mapsto> PBool True) else d2)
      in d3(''parse'' \<mapsto> PList (map PStr
              ((if everyone a then [''everyone''] else [])
               @ (if users a = MBool True then [''users''] else [])
               @ (if AllowedMentions.roles a = MBool True then [''roles''] else [])))))"
  unfolding to_dict_def Let_def
  by (cases "everyone a"; cases "reply_user a"; simp add: mention_block_eq)

lemma to_dict_parse:
  "to_dict a ''parse'' =
     Some (PList (map PStr ((if everyone a then [''everyone''] else [])
                          @ (if users a = MBool True then [''users''] else [])
                          @ (if AllowedMentions.roles a = MBool True then [''roles''] else []))))"
  by (simp add: to_dict_eq Let_def)

lemma to_dict_users:
  "to_dict a ''users'' =
     (case users a of MList xs \<Rightarrow> Some (PList (map (\<lambda>x. PInt (id' x)) xs)) | _ \<Rightarrow> None)"
  by (simp add: to_dict_eq Let_def split: mention_field.splits)

lemma to_dict_roles:
  "to_dict a ''roles'' =
     (case AllowedMentions.roles a of
        MList xs \<Rightarrow> Some (PList (map (\<lambda>x. PInt (id' x)) xs)) | _ \<Rightarrow> None)"
  by (simp add: to_dict_eq Let_def split: mention_field.splits)

lemma to_dict_replied_user:
  "to_dict a ''replied_user'' = (if reply_user a then Some (PBool True) else None)"
  by (simp add: to_dict_eq Let_def split: mention_field.splits)

lemma to_dict_dom:
  "dom (to_dict a) \<subseteq> {''parse'', ''users'', ''roles'', ''replied_user''}"
  by (auto simp: to_dict_eq Let_def split: mention_field.splits if_splits)

lemma to_dict_all:
  "to_dict AllowedMentions_all =
     [''parse'' \<mapsto> PList [PStr ''everyone'', PStr ''users'', PStr ''roles''],
      ''replied_user'' \<mapsto> PBool True]"
  by (rule ext) (simp add: to_dict_eq Let_def AllowedMentions_all_def AllowedMentions_init_def)

lemma to_dict_none:
  "to_dict AllowedMentions_none = [''parse'' \<mapsto> PList []]"
  by (rule ext) (simp add: to_dict_eq Let_def AllowedMentions_none_def AllowedMentions_init_def)

text \<open>
  Claim C4. \<^verbatim>\<open>to_dict()\<close> returns a dictionary whose \<open>parse\<close> list holds, in this order,
  \<open>everyone\<close>, \<open>users\<close> and \<open>roles\<close>, each exactly when the field is the boolean \<open>True\<close>; a
  \<open>users\<close> or \<open>roles\<close> field that is a list is emitted as the list of its identifiers under
  the key \<open>users\<close> or \<open>roles\<close> (and then has no \<open>parse\<close> entry), and the key is absent
  otherwise; \<open>replied_user: true\<close> is present exactly when \<open>reply_user\<close> is true; there is
  no other key. \<^verbatim>\<open>all()\<close> gives \<^verbatim>\<open>{parse: [everyone, users, roles], replied_user: true}\<close> and
  \<^verbatim>\<open>none()\<close> gives \<^verbatim>\<open>{parse: []}\<close>.
\<close>

theorem to_dict_serialisation:
  "to_dict a ''parse'' =
     Some (PList (map PStr ((if everyone a then [''everyone''] else [])
                          @ (if users a = MBool True then [''users''] else [])
                          @ (if AllowedMentions.roles a = MBool True then [''roles''] else []))))
   \<and> to_dict a ''users'' =
       (case users a of MList xs \<Rightarrow> Some (PList (map (\<lambda>x. PInt (id' x)) xs)) | _ \<Rightarrow> None)
   \<and> to_dict a ''roles'' =
       (case AllowedMentions.roles a of
          MList xs \<Rightarrow> Some (PList (map (\<lambda>x. PInt (id' x)) xs)) | _ \<Rightarrow> None)
   \<and> to_dict a ''replied_user'' = (if reply_user a then Some (PBool True) else None)
   \<and> dom (to_dict a) \<subseteq> {''parse'', ''users'', ''roles'', ''replied_user''}
   \<and> to_dict AllowedMentions_all =
       [''parse'' \<mapsto> PList [PStr ''everyone'', PStr ''users'', PStr ''roles''],
        ''replied_user'' \<mapsto> PBool True]
   \<and> to_dict AllowedMentions_none = [''parse'' \<mapsto> PList []]"
  using to_dict_parse to_dict_users to_dict_roles to_dict_replied_user to_dict_dom
    to_dict_all to_dict_none
  by blast

theorem to_dict_serialisation_witness:
  "to_dict \<lparr>everyone = True, users = MList [\<lparr>id' = 7\<rparr>, \<lparr>id' = 8\<rparr>],
            AllowedMentions.roles = MBool True, reply_user = False\<rparr> ''parse''
     = Some (PList [PStr ''everyone'', PStr ''roles''])
   \<and> to_dict \<lparr>everyone = True, users = MList [\<lparr>id' = 7\<rparr>, \<lparr>id' = 8\<rparr>],
              AllowedMentions.roles = MBool True, reply_user = False\<rparr> ''users''
     = Some (PList [PInt 7, PInt 8])
   \<and> to_dict \<lparr>everyone = True, users = MList [\<lparr>id' = 7\<rparr>, \<lparr>id' = 8\<rparr>],
              AllowedMentions.roles = MBool True, reply_user = False\<rparr> ''roles'' = None
   \<and> to_dict \<lparr>everyone = True, users = MList [\<lparr>id' = 7\<rparr>, \<lparr>id' = 8\<rparr>],
              AllowedMentions.roles = MBool True, reply_user = False\<rparr> ''replied_user'' = None"
  using to_dict_serialisation[of "\<lparr>everyone = True, users = MList [\<lparr>id' = 7\<rparr>, \<lparr>id' = 8\<rparr>],
            AllowedMentions.roles = MBool True, reply_user = False\<rparr>"]
  by simp

section \<open>add\_roles: one call per role, stopping at the first failure\<close>








section \<open>edit: the sparse payload\<close>

lemma dom_set_if_given:
  "dom (set_if_given key conv a p) = (if a = MISSING then dom p else insert key (dom p))"
  by (cases a) auto

lemma dom_set_roles:
  "dom (set_roles a p) =
     (if \<exists>rs. a = Given (Some rs) then insert ''roles'' (dom p) else dom p)"
  by (cases "(a, p)" rule: set_roles.cases) auto

lemma dom_set_timeout:
  assumes "set_timeout now a p = Inr p'"
  shows "dom p' = (if a = MISSING then dom p else insert ''communication_disabled_until'' (dom p))"
proof (cases a)
  case MISSING
  with assms show ?thesis by simp
next
  case (Given x)
  with assms show ?thesis
    by (auto simp: bind_e_def split: sum.splits option.splits)
qed

lemma dom_edit_payload:
  assumes "edit_payload now args = Inr p"
  shows "dom p =
     (if arg_nick args = MISSING then {} else {''nick''})
     \<union> (if \<exists>rs. arg_roles args = Given (Some rs) then {''roles''} else {})
     \<union> (if arg_mute args = MISSING then {} else {''mute''})
     \<union> (if arg_deaf args = MISSING then {} else {''deaf''})
     \<union> (if arg_channel_id args = MISSING then {} else {''channel_id''})
     \<union> (if arg_communication_disabled_until args = MISSING then {}
         else {''communication_disabled_until''})"
proof -
  from assms have "set_timeout now (arg_communication_disabled_until args)
      (set_if_given ''channel_id'' of_int (arg_channel_id args)
        (set_if_given ''deaf'' of_bool (arg_deaf args)
          (set_if_given ''mute'' of_bool (arg_mute args)
            (set_roles (arg_roles args)
              (set_if_given ''nick'' of_str (arg_nick args) Map.empty))))) = Inr p"
    by (simp add: edit_payload_def Let_def)
  from dom_set_timeout[OF this] show ?thesis
    unfolding dom_set_if_given dom_set_roles by auto
qed

lemma edit_calls:
  assumes "edit_payload now args = Inr p"
  shows "calls (snd (edit api ext self args now st)) = calls st @ [edit_request self p]"
proof -
  obtain r st' where q: "query api (edit_request self p) st = (r, st')"
    by (cases "query api (edit_request self p) st") blast
  with calls_query[of api "edit_request self p" st]
  have "calls st' = calls st @ [edit_request self p]" by simp
  with q assms show ?thesis by (cases r) (simp_all add: edit_def)
qed

text \<open>
  Claim C6, as amended. Whenever \<^verbatim>\<open>edit()\<close> builds its payload (it raises nothing before
  the dispatcher call), the \<^verbatim>\<open>PATCH\<close> is issued with that payload, whose keys are among
  \<open>nick\<close>, \<open>roles\<close>, \<open>mute\<close>, \<open>deaf\<close>, \<open>communication_disabled_until\<close> and \<open>channel_id\<close>.
  The keys \<open>nick\<close>, \<open>mute\<close>, \<open>deaf\<close>, \<open>channel_id\<close> and \<open>communication_disabled_until\<close>
  are present if and only if the argument was supplied (is not \<^verbatim>\<open>MISSING\<close>); the key
  \<open>roles\<close> is present if and only if the argument supplied is a list.
\<close>

theorem edit_payload_sparse:
  assumes "edit_payload now args = Inr p"
  shows "(''nick'' \<in> dom p \<longleftrightarrow> arg_nick args \<noteq> MISSING)
    \<and> (''roles'' \<in> dom p \<longleftrightarrow> (\<exists>rs. arg_roles args = Given (Some rs)))
    \<and> (''mute'' \<in> dom p \<longleftrightarrow> arg_mute args \<noteq> MISSING)
    \<and> (''deaf'' \<in> dom p \<longleftrightarrow> arg_deaf args \<noteq> MISSING)
    \<and> (''communication_disabled_until'' \<in> dom p
         \<longleftrightarrow> arg_communication_disabled_until args \<noteq> MISSING)
    \<and> (''channel_id'' \<in> dom p \<longleftrightarrow> arg_channel_id args \<noteq> MISSING)
    \<and> dom p \<subseteq> {''nick'', ''roles'', ''mute'', ''deaf'', ''communication_disabled_until'',
                 ''channel_id''}
    \<and> calls (snd (edit api ext self args now st)) = calls st @ [edit_request self p]"
  unfolding dom_edit_payload[OF assms] edit_calls[OF assms] by simp

text \<open>
  The claim as stated fails for \<open>roles\<close>: \<^verbatim>\<open>edit(roles=None)\<close> supplies the argument, and
  the payload has no \<open>roles\<close> key.
\<close>

theorem edit_roles_none_counterexample:
  "\<exists>p. edit_payload (Datetime 0) (no_args\<lparr>arg_roles := Given None\<rparr>) = Inr p
       \<and> arg_roles (no_args\<lparr>arg_roles := Given None\<rparr>) \<noteq> MISSING
       \<and> ''roles'' \<notin> dom p"
  by (simp add: edit_payload_def no_args_def)

theorem edit_payload_sparse_witness:
  "edit_payload (Datetime 0)
     (no_args\<lparr>arg_nick := Given None, arg_roles := Given (Some [RoleId 5]),
              arg_communication_disabled_until := Given (TInt 3600)\<rparr>)
     = Inr [''nick'' \<mapsto> PNone, ''roles'' \<mapsto> PList [PInt 5],
            ''communication_disabled_until'' \<mapsto> PStr (isoformat (Datetime 3600000000))]
   \<and> ''nick'' \<in> dom [''nick'' \<mapsto> PNone, ''roles'' \<mapsto> PList [PInt 5],
            ''communication_disabled_until'' \<mapsto> PStr (isoformat (Datetime 3600000000))]
   \<and> ''mute'' \<notin> dom [''nick'' \<mapsto> PNone, ''roles'' \<mapsto> PList [PInt 5],
            ''communication_disabled_until'' \<mapsto> PStr (isoformat (Datetime 3600000000))]"
proof -
  let ?args = "no_args\<lparr>arg_nick := Given None, arg_roles := Given (Some [RoleId 5]),
              arg_communication_disabled_until := Given (TInt 3600)\<rparr>"
  let ?p = "[''nick'' \<mapsto> PNone, ''roles'' \<mapsto> PList [PInt 5],
            ''communication_disabled_until'' \<mapsto> PStr (isoformat (Datetime 3600000000))]"
  have e: "edit_payload (Datetime 0) ?args = Inr ?p"
    by (simp add: edit_payload_def no_args_def bind_e_def timedelta_new_def Let_def)
  from edit_payload_sparse[OF e] e show ?thesis
    by (simp add: no_args_def)
qed

section \<open>edit: an explicit None for the roles\<close>

text \<open>
  Claim C10. \<^verbatim>\<open>edit(roles=None)\<close> behaves exactly as \<^verbatim>\<open>edit()\<close> without the \<open>roles\<close>
  argument, whatever the other arguments, the dispatcher and the clock are: the same
  result, the same calls. Its payload has no \<open>roles\<close> key, while a list produces the key
  with the list of role identifiers.
\<close>

theorem edit_roles_none_ignored:
  "edit api ext self (args\<lparr>arg_roles := Given None\<rparr>) now st
     = edit api ext self (args\<lparr>arg_roles := MISSING\<rparr>) now st
   \<and> (edit_payload now (args\<lparr>arg_roles := Given None\<rparr>) = Inr p \<longrightarrow> p ''roles'' = None)
   \<and> (edit_payload now (args\<lparr>arg_roles := Given (Some rs)\<rparr>) = Inr p'
        \<longrightarrow> p' ''roles'' = Some (PList (map (\<lambda>role. PInt (role_id_of role)) rs)))"
proof (intro conjI impI)
  show "edit api ext self (args\<lparr>arg_roles := Given None\<rparr>) now st
     = edit api ext self (args\<lparr>arg_roles := MISSING\<rparr>) now st"
    by (simp add: edit_def edit_payload_def)
next
  assume a: "edit_payload now (args\<lparr>arg_roles := Given None\<rparr>) = Inr p"
  from dom_edit_payload[OF a] have "''roles'' \<notin> dom p" by (simp split: if_splits)
  then show "p ''roles'' = None" by blast
next
  assume a: "edit_payload now (args\<lparr>arg_roles := Given (Some rs)\<rparr>) = Inr p'"
  show "p' ''roles'' = Some (PList (map (\<lambda>role. PInt (role_id_of role)) rs))"
  proof (cases "arg_communication_disabled_until args")
    case MISSING
    with a show ?thesis
      by (cases "arg_nick args"; cases "arg_mute args"; cases "arg_deaf args";
          cases "arg_channel_id args") (auto simp: edit_payload_def Let_def)
  next
    case (Given x)
    with a show ?thesis
      by (cases "arg_nick args"; cases "arg_mute args"; cases "arg_deaf args";
          cases "arg_channel_id args")
         (auto simp: edit_payload_def Let_def bind_e_def split: sum.splits option.splits)
  qed
qed

theorem edit_roles_none_ignored_witness:
  "(\<exists>p. edit_payload (Datetime 0) (no_args\<lparr>arg_roles := Given None\<rparr>) = Inr p
        \<and> p ''roles'' = None)
   \<and> (\<exists>p. edit_payload (Datetime 0)
               (no_args\<lparr>arg_roles := Given (Some [RoleId 5, RoleObj (PartialRole_init 1 6)])\<rparr>)
             = Inr p
        \<and> p ''roles'' = Some (PList [PInt 5, PInt 6]))"
proof -
  have a: "edit_payload (Datetime 0) (no_args\<lparr>arg_roles := Given None\<rparr>) = Inr Map.empty"
    by (simp add: edit_payload_def no_args_def)
  have b: "edit_payload (Datetime 0)
               (no_args\<lparr>arg_roles := Given (Some [RoleId 5, RoleObj (PartialRole_init 1 6)])\<rparr>)
             = Inr [''roles'' \<mapsto> PList [PInt 5, PInt 6]]"
    by (simp add: edit_payload_def no_args_def PartialRole_init_def)
  from edit_roles_none_ignored[of _ _ _ no_args "Datetime 0" _ Map.empty
        "[RoleId 5, RoleObj (PartialRole_init 1 6)]" "[''roles'' \<mapsto> PList [PInt 5, PInt 6]]"] a b
  show ?thesis by (simp add: PartialRole_init_def)
qed

section \<open>Member.display\_name\<close>

text \<open>
  Claim C7. \<^verbatim>\<open>display_name\<close> is the nickname when it is a non-empty string; else (the
  nickname is \<open>None\<close> or empty) the global display name when that is a non-empty string;
  else (it is \<open>None\<close> or empty as well) the username.
\<close>

theorem display_name_resolution:
  "(nick m = PStr n \<and> n \<noteq> [] \<longrightarrow> display_name m = PStr n)
   \<and> ((nick m = PNone \<or> nick m = PStr []) \<and> global_name (user m) = Some g \<and> g \<noteq> []
        \<longrightarrow> display_name m = PStr g)
   \<and> ((nick m = PNone \<or> nick m = PStr [])
        \<and> (global_name (user m) = None \<or> global_name (user m) = Some [])
        \<longrightarrow> display_name m = PStr (name (user m)))"
  by (auto simp: display_name_def)

theorem display_name_resolution_witness:
  "(let m = \<lparr>id' = 1, guild_id = 2,
             user = \<lparr>id' = 1, name = ''bob'', global_name = Some ''Bobby''\<rparr>, avatar = None,
             Member.flags = PInt 0, pending = PBool False, raw_permissions = None,
             nick = PStr ''B'', joined_at = Datetime 0, roles = []\<rparr>
    in display_name m = PStr ''B''
       \<and> display_name (m\<lparr>nick := PNone\<rparr>) = PStr ''Bobby''
       \<and> display_name (m\<lparr>nick := PStr [], user := (user m)\<lparr>global_name := None\<rparr>\<rparr>) = PStr ''bob''
       \<and> display_name (m\<lparr>nick := PNone, user := (user m)\<lparr>global_name := Some []\<rparr>\<rparr>) = PStr ''bob'')"
proof -
  let ?m = "\<lparr>id' = 1, guild_id = 2,
             user = \<lparr>id' = 1, name = ''bob'', global_name = Some ''Bobby''\<rparr>, avatar = None,
             Member.flags = PInt 0, pending = PBool False, raw_permissions = None,
             nick = PStr ''B'', joined_at = Datetime 0, roles = []\<rparr>"
  from display_name_resolution[of ?m "''B''" "''Bobby''"]
    display_name_resolution[of "?m\<lparr>nick := PNone\<rparr>" "''B''" "''Bobby''"]
    display_name_resolution[of "?m\<lparr>nick := PStr [], user := (user ?m)\<lparr>global_name := None\<rparr>\<rparr>"
       "''B''" "''Bobby''"]
    display_name_resolution[of "?m\<lparr>nick := PNone, user := (user ?m)\<lparr>global_name := Some []\<rparr>\<rparr>"
       "''B''" "''Bobby''"]
  show ?thesis by (simp add: Let_def)
qed

section \<open>String conversion of the wrappers\<close>





section \<open>Hydrated members: identity and freshness\<close>

lemma bind_e_Inr:
  "bind_e x f = Inr y \<Longrightarrow> \<exists>v. x = Inr v \<and> f v = Inr y"
  by (cases x) (simp_all add: bind_e_def)

lemma Member_init_ids:
  assumes "Member_init ext g data = Inr m"
  shows "(\<exists>u raw. getitem data ''user'' = Inr u \<and> getitem u ''id'' = Inr raw
            \<and> py_int raw = Inr (id' m))
         \<and> guild_id m = id' g"
  using assms unfolding Member_init_def by (auto dest!: bind_e_Inr)

lemma edit_Inr:
  assumes "edit api ext self args now st = (Inr m, st')"
  shows "\<exists>p response. edit_payload now args = Inr p
           \<and> query api (edit_request self p) st = (Inr response, st')
           \<and> Member_init ext (guild self) response = Inr m"
proof (cases "edit_payload now args")
  case (Inl e)
  with assms show ?thesis by (simp add: edit_def)
next
  case (Inr p)
  obtain r st1 where q: "query api (edit_request self p) st = (r, st1)"
    by (cases "query api (edit_request self p) st") blast
  show ?thesis
  proof (cases r)
    case (Inl e)
    with Inr q assms show ?thesis by (simp add: edit_def)
  next
    case r: (Inr response)
    with Inr q assms have "st1 = st'" "Member_init ext (guild self) response = Inr m"
      by (simp_all add: edit_def)
    with Inr q r show ?thesis by simp
  qed
qed

lemma edit_in_store_Inr:
  assumes "edit_in_store api ext self args now (h, st) = (Inr r, (h', st'))"
  shows "\<exists>m. edit api ext self args now st = (Inr m, st') \<and> r = length h \<and> h' = h @ [m]"
proof -
  obtain x st1 where e: "edit api ext self args now st = (x, st1)"
    by (cases "edit api ext self args now st") blast
  with assms show ?thesis by (cases x) (simp_all add: edit_in_store_def)
qed

lemma edit_in_store_Inl:
  assumes "edit_in_store api ext self args now (h, st) = (Inl e, (h', st'))"
  shows "h' = h"
proof -
  obtain x st1 where e: "edit api ext self args now st = (x, st1)"
    by (cases "edit api ext self args now st") blast
  with assms show ?thesis by (cases x) (simp_all add: edit_in_store_def)
qed

text \<open>
  Claim C9. A \<^verbatim>\<open>Member\<close> that \<^verbatim>\<open>Member.__init__\<close> constructs from \<open>data\<close> in the guild
  \<open>g\<close> has the identifier \<^verbatim>\<open>int(data["user"]["id"])\<close> and the guild identifier of \<open>g\<close>.
  \<^verbatim>\<open>edit\<close> called on an object of the store returns a reference to a new object, leaves
  every object that existed as it was (also when it raises), and the new \<^verbatim>\<open>Member\<close> is
  the one constructed from the dispatcher's response in the guild of the original: its
  identifier is the one in the response, its guild identifier the original's.
\<close>

theorem member_identity_invariant:
  "(Member_init ext g data = Inr m
      \<longrightarrow> (\<exists>u raw. getitem data ''user'' = Inr u \<and> getitem u ''id'' = Inr raw
                   \<and> py_int raw = Inr (id' m))
          \<and> guild_id m = id' g)
   \<and> (edit_in_store api ext self args now (h, st) = (Inr r, (h', st'))
      \<longrightarrow> r = length h \<and> length h' = Suc (length h)
          \<and> (\<forall>a < length h. h' ! a = h ! a)
          \<and> guild_id (h' ! r) = guild_id self
          \<and> (\<exists>p response u raw. edit_payload now args = Inr p
                \<and> query api (edit_request self p) st = (Inr response, st')
                \<and> Member_init ext (guild self) response = Inr (h' ! r)
                \<and> getitem response ''user'' = Inr u \<and> getitem u ''id'' = Inr raw
                \<and> py_int raw = Inr (id' (h' ! r))))
   \<and> (edit_in_store api ext self args now (h, st) = (Inl e, (h', st')) \<longrightarrow> h' = h)"
proof (intro conjI impI)
  assume "Member_init ext g data = Inr m"
  from Member_init_ids[OF this]
  show "\<exists>u raw. getitem data ''user'' = Inr u \<and> getitem u ''id'' = Inr raw
                   \<and> py_int raw = Inr (id' m)"
    and "guild_id m = id' g" by blast+
next
  assume a: "edit_in_store api ext self args now (h, st) = (Inr r, (h', st'))"
  from edit_in_store_Inr[OF a] obtain m' where
    m: "edit api ext self args now st = (Inr m', st')" "r = length h" "h' = h @ [m']" by blast
  from edit_Inr[OF m(1)] obtain p response where
    pr: "edit_payload now args = Inr p"
        "query api (edit_request self p) st = (Inr response, st')"
        "Member_init ext (guild self) response = Inr m'" by blast
  from Member_init_ids[OF pr(3)] obtain u raw where
    ur: "getitem response ''user'' = Inr u" "getitem u ''id'' = Inr raw"
        "py_int raw = Inr (id' m')" "guild_id m' = id' (guild self)" by blast
  from m(2,3) have new: "h' ! r = m'" by simp
  show "r = length h" by (rule m(2))
  show "length h' = Suc (length h)" using m(3) by simp
  show "\<forall>a < length h. h' ! a = h ! a" using m(3) by (simp add: nth_append)
  show "guild_id (h' ! r) = guild_id self"
    using new ur(4) by (simp add: guild_def PartialGuild_init_def)
  show "\<exists>p response u raw. edit_payload now args = Inr p
                \<and> query api (edit_request self p) st = (Inr response, st')
                \<and> Member_init ext (guild self) response = Inr (h' ! r)
                \<and> getitem response ''user'' = Inr u \<and> getitem u ''id'' = Inr raw
                \<and> py_int raw = Inr (id' (h' ! r))"
    using pr ur new by blast
next
  assume "edit_in_store api ext self args now (h, st) = (Inl e, (h', st'))"
  then show "h' = h" by (rule edit_in_store_Inl)
qed

lemma parse_int_42: "parse_int ''42'' = Some 42"
  by code_simp

lemma parse_int_5: "parse_int ''5'' = Some 5"
  by code_simp

theorem member_identity_invariant_witness:
  "(let ext = \<lparr>User_init = (\<lambda>u. Inr \<lparr>id' = 42, name = ''bob'', global_name = None\<rparr>),
               get_int = (\<lambda>d k. Inr None), parse_time = (\<lambda>v. Inr (Datetime 0)),
               User_str = name\<rparr>;
        data = (\<lambda>nk. PDict [(''user'', PDict [(''id'', PStr ''42'')]), (''flags'', PInt 0),
                  (''nick'', nk), (''joined_at'', PStr ''2024-01-01T00:00:00+00:00''),
                  (''roles'', PList [PStr ''5''])]);
        api = (\<lambda>req s. (Inr (data (PStr ''new'')), s))
    in \<exists>m r h' st'.
         Member_init ext (PartialGuild_init 9) (data PNone) = Inr m
         \<and> id' m = 42 \<and> guild_id m = 9 \<and> nick m = PNone
         \<and> edit_in_store api ext m (no_args\<lparr>arg_nick := Given (Some ''new'')\<rparr>) (Datetime 0)
               ([m], ((), [])) = (Inr r, (h', st'))
         \<and> r = 1 \<and> h' ! 0 = m \<and> nick (h' ! 1) = PStr ''new''
         \<and> id' (h' ! 1) = 42 \<and> guild_id (h' ! 1) = 9)"
proof -
  let ?ext = "\<lparr>User_init = (\<lambda>u. Inr \<lparr>id' = 42, name = ''bob'', global_name = None\<rparr>),
               get_int = (\<lambda>d k. Inr None), parse_time = (\<lambda>v. Inr (Datetime 0)),
               User_str = name\<rparr>"
  let ?data = "\<lambda>nk. PDict [(''user'', PDict [(''id'', PStr ''42'')]), (''flags'', PInt 0),
                  (''nick'', nk), (''joined_at'', PStr ''2024-01-01T00:00:00+00:00''),
                  (''roles'', PList [PStr ''5''])]"
  let ?api = "\<lambda>(req::request) (s::unit). (Inr (?data (PStr ''new'')) :: error + pyval, s)"
  let ?m = "\<lambda>nk. \<lparr>id' = 42, guild_id = 9,
             user = \<lparr>id' = 42, name = ''bob'', global_name = None\<rparr>, avatar = None,
             Member.flags = PInt 0, pending = PBool False, raw_permissions = None,
             nick = nk, joined_at = Datetime 0,
             roles = [\<lparr>id' = 5, role_guild_id = 9\<rparr>]\<rparr>"
  let ?args = "no_args\<lparr>arg_nick := Given (Some ''new'')\<rparr>"
  let ?st' = "((), [edit_request (?m PNone) [''nick'' \<mapsto> PStr ''new'']])"
  have init: "Member_init ?ext (PartialGuild_init 9) (?data nk) = Inr (?m nk)" for nk
    by (simp add: Member_init_def bind_e_def PartialGuild_init_def PartialRole_init_def
        parse_int_42 parse_int_5)
  have ed: "edit_in_store ?api ?ext (?m PNone) ?args (Datetime 0) ([?m PNone], ((), []))
              = (Inr 1, ([?m PNone, ?m (PStr ''new'')], ?st'))"
    using init[of "PStr ''new''"]
    by (simp add: edit_in_store_def edit_def edit_payload_def no_args_def query_def guild_def)
  from member_identity_invariant[of ?ext "PartialGuild_init 9" "?data PNone" "?m PNone"
      ?api "?m PNone" ?args "Datetime 0" "[?m PNone]" "((), [])" 1
      "[?m PNone, ?m (PStr ''new'')]" ?st'] init[of PNone] ed
  have "id' (?m PNone) = 42 \<and> guild_id (?m PNone) = 9
        \<and> [?m PNone, ?m (PStr ''new'')] ! 0 = ?m PNone
        \<and> guild_id ([?m PNone, ?m (PStr ''new'')] ! 1) = 9
        \<and> id' ([?m PNone, ?m (PStr ''new'')] ! 1) = 42"
    by (simp add: PartialGuild_init_def)
  with init[of PNone] ed show ?thesis
    unfolding Let_def
    by (intro exI[of _ "?m PNone"] exI[of _ 1] exI[of _ "[?m PNone, ?m (PStr ''new'')]"]
          exI[of _ ?st']) simp
qed


end
